theory Spec2Isabelle
  imports Main
begin

section \<open>JavaScript values as the Calendar sees them\<close>

text \<open>
  A JavaScript number is modelled as an integer, \<open>NaN\<close> or one of the two infinities.
  Fractions, the sign of zero and the loss of precision beyond \<open>2^53\<close> are outside the
  model: every number the Calendar computes from integers stays in this type.
\<close>

datatype jsnum = Num int | NaN | PosInf | NegInf

fun js_neg :: "jsnum \<Rightarrow> jsnum" where
  "js_neg (Num a) = Num (- a)"
| "js_neg NaN = NaN"
| "js_neg PosInf = NegInf"
| "js_neg NegInf = PosInf"

fun js_add :: "jsnum \<Rightarrow> jsnum \<Rightarrow> jsnum" where
  "js_add (Num a) (Num b) = Num (a + b)"
| "js_add NaN y = NaN"
| "js_add x NaN = NaN"
| "js_add PosInf NegInf = NaN"
| "js_add NegInf PosInf = NaN"
| "js_add PosInf y = PosInf"
| "js_add x PosInf = PosInf"
| "js_add NegInf y = NegInf"
| "js_add x NegInf = NegInf"

definition js_sub :: "jsnum \<Rightarrow> jsnum \<Rightarrow> jsnum" where
  "js_sub x y = js_add x (js_neg y)"

text \<open>The operator \<open><\<close>: every comparison with \<open>NaN\<close> is false.\<close>

fun js_lt :: "jsnum \<Rightarrow> jsnum \<Rightarrow> bool" where
  "js_lt (Num a) (Num b) = (a < b)"
| "js_lt NaN y = False"
| "js_lt x NaN = False"
| "js_lt x NegInf = False"
| "js_lt PosInf y = False"
| "js_lt NegInf y = True"
| "js_lt x PosInf = True"

text \<open>The operator \<open>>=\<close>: false when either side is \<open>NaN\<close>, otherwise not \<open><\<close>.\<close>

definition js_ge :: "jsnum \<Rightarrow> jsnum \<Rightarrow> bool" where
  "js_ge x y = (if x = NaN then False else if y = NaN then False else \<not> js_lt x y)"

text \<open>The operator \<open>%\<close>: the remainder takes the sign of the dividend.\<close>

fun js_rem :: "jsnum \<Rightarrow> jsnum \<Rightarrow> jsnum" where
  "js_rem (Num a) (Num b) = (if b = 0 then NaN else Num (sgn a * (\<bar>a\<bar> mod \<bar>b\<bar>)))"
| "js_rem (Num a) PosInf = Num a"
| "js_rem (Num a) NegInf = Num a"
| "js_rem x y = NaN"


text \<open>A number is falsy (for \<open>||\<close>) when it is zero or \<open>NaN\<close>.\<close>

fun js_falsy :: "jsnum \<Rightarrow> bool" where
  "js_falsy (Num a) = (a = 0)"
| "js_falsy NaN = True"
| "js_falsy x = False"

text \<open>
  What the extent generator may hand back. An object carries at most the two fields the
  Calendar reads: \<open>name\<close> (a string, when present) and \<open>length\<close> (a number, when
  present). \<open>JFunction\<close> stands for any function value.
\<close>

datatype jsval =
    JUndefined
  | JNull
  | JBool bool
  | JNumber jsnum
  | JString string
  | JFunction
  | JObject "string option" "jsnum option"
  | JArray "jsval list"

fun typeof :: "jsval \<Rightarrow> string" where
  "typeof JUndefined = ''undefined''"
| "typeof JNull = ''object''"
| "typeof (JBool b) = ''boolean''"
| "typeof (JNumber n) = ''number''"
| "typeof (JString s) = ''string''"
| "typeof JFunction = ''function''"
| "typeof (JObject nm len) = ''object''"
| "typeof (JArray vs) = ''object''"

text \<open>
  \<open>v.name\<close> used as a property key: \<open>None\<close> when reading the property throws (\<open>v\<close> is
  \<open>null\<close> or \<open>undefined\<close>); a missing \<open>name\<close> is \<open>undefined\<close>, whose key is the string
  \<open>undefined\<close>.
\<close>

fun nameKey :: "jsval \<Rightarrow> string option" where
  "nameKey JUndefined = None"
| "nameKey JNull = None"
| "nameKey (JObject (Some nm) len) = Some nm"
| "nameKey v = Some ''undefined''"

text \<open>
  \<open>v.length\<close> used as a summand: \<open>None\<close> when reading the property throws; a missing
  \<open>length\<close> is \<open>undefined\<close>, which adds as \<open>NaN\<close>.
\<close>

fun lengthOf :: "jsval \<Rightarrow> jsnum option" where
  "lengthOf JUndefined = None"
| "lengthOf JNull = None"
| "lengthOf (JObject nm (Some len)) = Some len"
| "lengthOf (JArray vs) = Some (Num (int (length vs)))"
| "lengthOf (JString s) = Some (Num (int (length s)))"
| "lengthOf v = Some NaN"

section \<open>The Calendar\<close>

datatype error =
    TypeError_constructor
  | Error_alreadyCached
  | TypeError_notArray string
  | TypeError_element nat nat
  | TypeError_property
  | TypeError_parameter string
  | Error_rollover


record InternalExtent =
  startYear_ext :: int
  startDay :: jsnum
  originalExt :: jsval

text \<open>
  The Calendar object. \<open>genCalls\<close> is not a field of the class: it records every call of
  \<open>populateExtents\<close>, most recent first, so that the calls can be counted.
\<close>

record Calendar =
  populateExtents :: "int \<Rightarrow> jsval"
  metrics :: "string \<rightharpoonup> jsnum"
  extentsByStart :: "int \<rightharpoonup> InternalExtent list"
  extentsByName :: "string \<rightharpoonup> (int \<rightharpoonup> InternalExtent)"
  startYear :: int
  totalDays :: jsnum
  currentDay :: jsnum
  currentTime :: jsnum
  genCalls :: "int list"

text \<open>\<open>this.metrics[k]\<close> in arithmetic: a missing entry is \<open>undefined\<close>, that is \<open>NaN\<close>.\<close>

definition metric :: "Calendar \<Rightarrow> string \<Rightarrow> jsnum" where
  "metric s k = (case metrics s k of None \<Rightarrow> NaN | Some d \<Rightarrow> d)"

text \<open>
  The callback of \<open>ext.map\<close> in \<open>buildExtents\<close>, run over the elements in order. It
  writes \<open>extentsByName\<close> element by element; the table it has reached is returned
  with the error when an element throws.
\<close>

fun mapExtents :: "int \<Rightarrow> nat \<Rightarrow> jsval list \<Rightarrow> nat \<Rightarrow> jsnum \<Rightarrow>
    (string \<rightharpoonup> (int \<rightharpoonup> InternalExtent)) \<Rightarrow>
    (error + InternalExtent list) \<times> (string \<rightharpoonup> (int \<rightharpoonup> InternalExtent))" where
  "mapExtents year len [] index start byName = (Inr [], byName)"
| "mapExtents year len (v # vs) index start byName =
     (if typeof v = ''object'' then
        (case nameKey v of
           None \<Rightarrow> (Inl TypeError_property, byName)
         | Some k \<Rightarrow>
            (let rv = \<lparr>startYear_ext = year, startDay = start, originalExt = v\<rparr>;
                 byName' = (case byName k of
                              Some m \<Rightarrow> byName(k \<mapsto> m(year \<mapsto> rv))
                            | None \<Rightarrow> byName(k \<mapsto> [year \<mapsto> rv]))
             in (case lengthOf v of
                   None \<Rightarrow> (Inl TypeError_property, byName')
                 | Some l \<Rightarrow>
                    (case mapExtents year len vs (Suc index) (js_add start l) byName' of
                       (Inl e, b) \<Rightarrow> (Inl e, b)
                     | (Inr rs, b) \<Rightarrow> (Inr (rv # rs), b)))))
      else (Inl (TypeError_element index len), byName))"

definition buildExtents :: "Calendar \<Rightarrow> int \<Rightarrow> (error + unit) \<times> Calendar" where
  "buildExtents s year =
     (if extentsByStart s year = None then
        (let ext = populateExtents s year;
             s1 = s\<lparr>genCalls := year # genCalls s\<rparr>
         in (case ext of
               JArray vs \<Rightarrow>
                 (case mapExtents year (length vs) vs 0 (Num 0) (extentsByName s1) of
                    (Inl e, b) \<Rightarrow> (Inl e, s1\<lparr>extentsByName := b\<rparr>)
                  | (Inr rs, b) \<Rightarrow>
                      (Inr (), s1\<lparr>extentsByName := b,
                                 extentsByStart := (extentsByStart s1)(year \<mapsto> rs)\<rparr>))
             | _ \<Rightarrow> (Inl (TypeError_notArray (typeof ext)), s1)))
      else (Inl Error_alreadyCached, s))"

definition getLengthOfYear :: "Calendar \<Rightarrow> int \<Rightarrow> (error + jsnum) \<times> Calendar" where
  "getLengthOfYear s year =
     (case (if extentsByStart s year = None then buildExtents s year else (Inr (), s)) of
        (Inl e, s') \<Rightarrow> (Inl e, s')
      | (Inr u, s') \<Rightarrow>
          (case extentsByStart s' year of
             None \<Rightarrow> (Inl TypeError_property, s')
           | Some yearExtents \<Rightarrow>
               (if yearExtents = [] then (Inl TypeError_property, s')
                else (case lengthOf (originalExt (last yearExtents)) of
                        None \<Rightarrow> (Inl TypeError_property, s')
                      | Some l \<Rightarrow> (Inr (js_add (startDay (last yearExtents)) l), s')))))"

text \<open>The loop \<open>while (n < 0)\<close> of \<open>setCurrentDay\<close>.\<close>

partial_function (option) setCurrentDay_backward ::
    "Calendar \<Rightarrow> int \<Rightarrow> jsnum \<Rightarrow> jsnum \<Rightarrow> ((error + int \<times> jsnum \<times> jsnum) \<times> Calendar) option" where
  "setCurrentDay_backward s thisYear totalDays' n =
     (if js_lt n (Num 0) then
        (case getLengthOfYear s (thisYear - 1) of
           (Inl e, s') \<Rightarrow> Some (Inl e, s')
         | (Inr t, s') \<Rightarrow> setCurrentDay_backward s' (thisYear - 1) t (js_add n t))
      else Some (Inr (thisYear, totalDays', n), s))"

declare setCurrentDay_backward.simps [code]

text \<open>The loop \<open>while (n >= totalDays)\<close> of \<open>setCurrentDay\<close>.\<close>

partial_function (option) setCurrentDay_forward ::
    "Calendar \<Rightarrow> int \<Rightarrow> jsnum \<Rightarrow> jsnum \<Rightarrow> ((error + int \<times> jsnum \<times> jsnum) \<times> Calendar) option" where
  "setCurrentDay_forward s thisYear totalDays' n =
     (if js_ge n totalDays' then
        (case getLengthOfYear s (thisYear + 1) of
           (Inl e, s') \<Rightarrow> Some (Inl e, s')
         | (Inr t, s') \<Rightarrow> setCurrentDay_forward s' (thisYear + 1) t (js_sub n t))
      else Some (Inr (thisYear, totalDays', n), s))"

declare setCurrentDay_forward.simps [code]

text \<open>
  \<open>setCurrentDay\<close>. The result is \<open>None\<close> when a loop never ends; otherwise it is the
  error thrown or \<open>()\<close>, with the Calendar as the call leaves it.
\<close>

definition setCurrentDay :: "Calendar \<Rightarrow> jsval \<Rightarrow> ((error + unit) \<times> Calendar) option" where
  "setCurrentDay s v =
     (case v of
        JNumber n \<Rightarrow>
          (case getLengthOfYear s (startYear s) of
             (Inl e, s1) \<Rightarrow> Some (Inl e, s1)
           | (Inr total0, s1) \<Rightarrow>
               (case setCurrentDay_backward s1 (startYear s) total0 n of
                  None \<Rightarrow> None
                | Some (Inl e, s2) \<Rightarrow> Some (Inl e, s2)
                | Some (Inr (thisYear, total1, n1), s2) \<Rightarrow>
                    (if js_ge n1 total1 then
                       (if startYear s2 = thisYear then
                          (case setCurrentDay_forward s2 thisYear total1 n1 of
                             None \<Rightarrow> None
                           | Some (Inl e, s3) \<Rightarrow> Some (Inl e, s3)
                           | Some (Inr (year2, total2, n2), s3) \<Rightarrow>
                               Some (Inr (), s3\<lparr>currentDay := n2, startYear := year2,
                                                totalDays := total2\<rparr>))
                        else Some (Inl Error_rollover, s2))
                     else Some (Inr (), s2\<lparr>currentDay := n1, startYear := thisYear,
                                           totalDays := total1\<rparr>))))
      | _ \<Rightarrow> Some (Inl (TypeError_parameter (typeof v)), s))"

text \<open>The loop \<open>while (n < 0) n += this.metrics["day"]\<close> of \<open>setCurrentTime\<close>.\<close>

partial_function (option) setCurrentTime_loop :: "jsnum \<Rightarrow> jsnum \<Rightarrow> jsnum option" where
  "setCurrentTime_loop n day =
     (if js_lt n (Num 0) then setCurrentTime_loop (js_add n day) day else Some n)"

declare setCurrentTime_loop.simps [code]

definition setCurrentTime :: "Calendar \<Rightarrow> jsnum \<Rightarrow> ((error + unit) \<times> Calendar) option" where
  "setCurrentTime s n =
     (case setCurrentTime_loop n (metric s ''day'') of
        None \<Rightarrow> None
      | Some n1 \<Rightarrow> Some (Inr (), s\<lparr>currentTime := js_rem n1 (metric s ''day'')\<rparr>))"

definition adjustDay :: "Calendar \<Rightarrow> jsnum \<Rightarrow> ((error + unit) \<times> Calendar) option" where
  "adjustDay s n = setCurrentDay s (JNumber (js_add (currentDay s) n))"


text \<open>
  The options object of the constructor. A field is \<open>None\<close> when the property is
  \<open>undefined\<close>; \<open>opt_populateExtents\<close> is \<open>None\<close> also when the property is not a
  function. The \<open>console\<close> option only receives log lines and is left out.
\<close>

record CalendarOptions =
  opt_startYear :: "int option"
  opt_populateExtents :: "(int \<Rightarrow> jsval) option"
  opt_metrics :: "(string \<rightharpoonup> jsnum) option"
  opt_currentDay :: "jsnum option"
  opt_currentTime :: "jsnum option"

text \<open>\<open>DefaultCalendarOptions.populateExtents\<close>: the Gregorian months.\<close>

definition isLeap :: "int \<Rightarrow> bool" where
  "isLeap year =
     (if js_rem (Num year) (Num 4) = Num 0
      then (if js_rem (Num year) (Num 100) = Num 0
            then js_rem (Num year) (Num 400) = Num 0 else True)
      else False)"

definition defaultPopulateExtents :: "int \<Rightarrow> jsval" where
  "defaultPopulateExtents year = JArray
     [JObject (Some ''Jan'') (Some (Num 31)),
      JObject (Some ''Feb'') (Some (Num (28 + (if isLeap year then 1 else 0)))),
      JObject (Some ''Mar'') (Some (Num 31)),
      JObject (Some ''Apr'') (Some (Num 30)),
      JObject (Some ''May'') (Some (Num 31)),
      JObject (Some ''Jun'') (Some (Num 30)),
      JObject (Some ''Jul'') (Some (Num 31)),
      JObject (Some ''Aug'') (Some (Num 31)),
      JObject (Some ''Sep'') (Some (Num 30)),
      JObject (Some ''Oct'') (Some (Num 31)),
      JObject (Some ''Nov'') (Some (Num 30)),
      JObject (Some ''Dec'') (Some (Num 31))]"

definition defaultMetrics :: "string \<rightharpoonup> jsnum" where
  "defaultMetrics = map_of
     [(''second'', Num 1), (''seconds'', Num 1),
      (''turn'', Num 6), (''turns'', Num 6),
      (''round'', Num 6), (''rounds'', Num 6),
      (''minute'', Num 60), (''minutes'', Num 60),
      (''hour'', Num 3600), (''hours'', Num 3600),
      (''day'', Num 86400), (''days'', Num 86400)]"

definition DefaultCalendarOptions :: CalendarOptions where
  "DefaultCalendarOptions =
     \<lparr>opt_startYear = Some 0,
      opt_populateExtents = Some defaultPopulateExtents,
      opt_metrics = Some defaultMetrics,
      opt_currentDay = Some (Num 0),
      opt_currentTime = Some (Num 0)\<rparr>"

text \<open>\<open>x || d\<close> for an optional number \<open>x\<close>.\<close>

definition orElse :: "jsnum option \<Rightarrow> jsnum \<Rightarrow> jsnum" where
  "orElse x d = (case x of None \<Rightarrow> d | Some n \<Rightarrow> if js_falsy n then d else n)"

text \<open>
  The Calendar when the constructor has assigned \<open>metrics\<close>, \<open>startYear\<close> and
  \<open>populateExtents\<close> (lines 156 to 166), before it calls \<open>setCurrentDay\<close>:
  \<open>this.startYear = props?.startYear || 2022\<close>.
\<close>

definition constructorFields :: "CalendarOptions \<Rightarrow> (int \<Rightarrow> jsval) \<Rightarrow> int \<Rightarrow> Calendar" where
  "constructorFields props gen sy =
     \<lparr>populateExtents = gen,
      metrics = (case opt_metrics props of None \<Rightarrow> defaultMetrics | Some m \<Rightarrow> m),
      extentsByStart = Map.empty,
      extentsByName = Map.empty,
      startYear = (if sy = 0 then 2022 else sy),
      totalDays = Num 0,
      currentDay = Num 0,
      currentTime = Num 0,
      genCalls = []\<rparr>"

text \<open>The last lines of the constructor read the cached year again for the log line.\<close>

definition constructorLog :: "Calendar \<Rightarrow> error + Calendar" where
  "constructorLog s =
     (case extentsByStart s (startYear s) of
        None \<Rightarrow> Inl TypeError_property
      | Some prevYear \<Rightarrow>
          (if prevYear = [] then Inl TypeError_property
           else (case lengthOf (originalExt (last prevYear)) of
                   None \<Rightarrow> Inl TypeError_property
                 | Some l \<Rightarrow> Inr s)))"

text \<open>
  \<open>new Calendar(props)\<close>; the argument is \<open>None\<close> when no options are passed, and the
  default parameter applies. An error leaves no Calendar behind.
\<close>

definition Calendar_new :: "CalendarOptions option \<Rightarrow> (error + Calendar) option" where
  "Calendar_new arg =
     (let props = (case arg of None \<Rightarrow> DefaultCalendarOptions | Some p \<Rightarrow> p) in
      (case opt_populateExtents props of
         None \<Rightarrow> Some (Inl TypeError_constructor)
       | Some gen \<Rightarrow>
           (case opt_startYear props of
              None \<Rightarrow> Some (Inl TypeError_constructor)
            | Some sy \<Rightarrow>
                (case setCurrentDay (constructorFields props gen sy)
                        (JNumber (orElse (opt_currentDay props) (Num 0))) of
                   None \<Rightarrow> None
                 | Some (Inl e, s1) \<Rightarrow> Some (Inl e)
                 | Some (Inr u, s1) \<Rightarrow>
                     (case setCurrentTime s1 (orElse (opt_currentTime props) (Num 0)) of
                        None \<Rightarrow> None
                      | Some (Inl e, s2) \<Rightarrow> Some (Inl e)
                      | Some (Inr u', s2) \<Rightarrow> Some (constructorLog s2))))))"




section \<open>Utils.bsearch\<close>

datatype bsearch_error = TypeError_empty | RangeError_comparison int

text \<open>The comparator used when neither an argument nor a method supplies one.\<close>

definition defaultCompare :: "'a::linorder \<Rightarrow> 'a \<Rightarrow> int" where
  "defaultCompare a b = (if a < b then - 1 else if a = b then 0 else 1)"

text \<open>
  The loop \<open>while (low <= high)\<close>. From \<open>bsearch\<close> it starts with \<open>low = 0\<close> and
  \<open>high = ary.length - 1\<close>, so \<open>mid\<close> always is an index of the array.
\<close>

function bsearch_loop ::
    "('a \<Rightarrow> 'a \<Rightarrow> int) \<Rightarrow> 'a list \<Rightarrow> 'a \<Rightarrow> int \<Rightarrow> int \<Rightarrow> int \<Rightarrow> bsearch_error + int" where
  "bsearch_loop compareFn ary val low high mid =
     (if low \<le> high then
        (let mid' = (low + high) div 2;
             comparison = compareFn val (ary ! nat mid')
         in if comparison = - 1 then bsearch_loop compareFn ary val low (mid' - 1) mid'
            else if comparison = 0 then Inr mid'
            else if comparison = 1 then bsearch_loop compareFn ary val (mid' + 1) high mid'
            else Inl (RangeError_comparison comparison))
      else Inr (- mid))"
  by pat_completeness auto
termination
  by (relation "measure (\<lambda>(compareFn, ary, val, low, high, mid). nat (high - low + 1))") auto

text \<open>
  \<open>bsearch(ary, value, compare)\<close>; \<open>valCompare\<close> is \<open>value.compare\<close> when that is a
  function.
\<close>

definition bsearch ::
    "'a::linorder list \<Rightarrow> 'a \<Rightarrow> ('a \<Rightarrow> 'a \<Rightarrow> int) option \<Rightarrow> ('a \<Rightarrow> int) option \<Rightarrow>
     bsearch_error + int" where
  "bsearch ary val compare valCompare =
     (if int (length ary) - 1 < 0 then Inl TypeError_empty
      else bsearch_loop
             (case compare of
                Some c \<Rightarrow> c
              | None \<Rightarrow> (case valCompare of Some m \<Rightarrow> (\<lambda>a b. m b) | None \<Rightarrow> defaultCompare))
             ary val 0 (int (length ary) - 1) 0)"

section \<open>Calendars used as examples\<close>

text \<open>The Gregorian generator of the source, started in 2023 with every other option left out.\<close>

definition gregorian2023 :: CalendarOptions where
  "gregorian2023 =
     \<lparr>opt_startYear = Some 2023,
      opt_populateExtents = Some defaultPopulateExtents,
      opt_metrics = None,
      opt_currentDay = None,
      opt_currentTime = None\<rparr>"

text \<open>The readable position of a Calendar: \<open>startYear\<close>, \<open>currentDay\<close> and \<open>totalDays\<close>.\<close>

definition position :: "Calendar \<Rightarrow> int \<times> jsnum \<times> jsnum" where
  "position s = (startYear s, currentDay s, totalDays s)"

text \<open>
  The four quarters of the repository's tests, and a generator that fails for two years:
  for 2020 its second element is a number, for 2019 it returns an object, not an array.
\<close>

definition quarters :: jsval where
  "quarters = JArray
     [JObject (Some ''Qtr1'') (Some (Num 90)),
      JObject (Some ''Qtr2'') (Some (Num 91)),
      JObject (Some ''Qtr3'') (Some (Num 92)),
      JObject (Some ''Qtr4'') (Some (Num 92))]"

definition faultyExtents :: "int \<Rightarrow> jsval" where
  "faultyExtents year =
     (if year = 2020 then JArray [JObject (Some ''Qtr1'') (Some (Num 90)), JNumber (Num 5)]
      else if year = 2019 then JObject (Some ''Qtr1'') (Some (Num 90))
      else quarters)"

definition faultyOptions :: CalendarOptions where
  "faultyOptions =
     \<lparr>opt_startYear = Some 2022,
      opt_populateExtents = Some faultyExtents,
      opt_metrics = None,
      opt_currentDay = None,
      opt_currentTime = None\<rparr>"

text \<open>A generator whose only element is an object with neither \<open>name\<close> nor \<open>length\<close>.\<close>

definition shapelessExtents :: "int \<Rightarrow> jsval" where
  "shapelessExtents year = JArray [JObject None None]"

section \<open>Notions used in the statements and proofs\<close>

text \<open>\<open>Array.isArray\<close>.\<close>

fun isArray :: "jsval \<Rightarrow> bool" where
  "isArray (JArray vs) = True"
| "isArray v = False"

text \<open>A value whose \<open>typeof\<close> is \<open>object\<close> and that is not \<open>null\<close>.\<close>

fun isObject :: "jsval \<Rightarrow> bool" where
  "isObject (JObject nm len) = True"
| "isObject (JArray vs) = True"
| "isObject v = False"








section \<open>Properties of setCurrentTime\<close>




section \<open>Resolving a year: buildExtents and getLengthOfYear\<close>

lemma isObject_typeof: "isObject v \<Longrightarrow> typeof v = ''object''"
  by (cases v) simp_all

lemma isObject_nameKey: "isObject v \<Longrightarrow> \<exists>k. nameKey v = Some k"
  by (cases v rule: nameKey.cases) simp_all

lemma isObject_lengthOf: "isObject v \<Longrightarrow> \<exists>l. lengthOf v = Some l"
  by (cases v rule: lengthOf.cases) simp_all



lemma fst_wrap:
  "fst (case X of (Inl e, b) \<Rightarrow> (Inl e, b) | (Inr rs, b) \<Rightarrow> (Inr (f rs), b)) =
   map_sum id f (fst X)"
  by (cases X; cases "fst X") auto

lemma mapExtents_Cons_fst:
  assumes "typeof v = ''object''" and "nameKey v = Some k" and "lengthOf v = Some l"
  shows "\<exists>b1. fst (mapExtents y len (v # vs) i st b) =
           map_sum id ((#) \<lparr>startYear_ext = y, startDay = st, originalExt = v\<rparr>)
             (fst (mapExtents y len vs (Suc i) (js_add st l) b1))"
  using assms by (simp add: Let_def fst_wrap) blast



lemma mapExtents_first_bad:
  assumes "k < length vs" and "typeof (vs ! k) \<noteq> ''object''"
    and "\<forall>j<k. isObject (vs ! j)"
  shows "fst (mapExtents y len vs i st b) = Inl (TypeError_element (i + k) len)"
  using assms
proof (induction vs arbitrary: i st b k)
  case Nil
  then show ?case by simp
next
  case (Cons v vs)
  show ?case
  proof (cases k)
    case 0
    with Cons.prems show ?thesis by simp
  next
    case (Suc k')
    with Cons.prems have "isObject v" by auto
    then obtain key l where kl: "typeof v = ''object''" "nameKey v = Some key" "lengthOf v = Some l"
      using isObject_typeof isObject_nameKey isObject_lengthOf by blast
    obtain b1 where b1: "fst (mapExtents y len (v # vs) i st b) =
           map_sum id ((#) \<lparr>startYear_ext = y, startDay = st, originalExt = v\<rparr>)
             (fst (mapExtents y len vs (Suc i) (js_add st l) b1))"
      using mapExtents_Cons_fst[OF kl] by blast
    have "fst (mapExtents y len vs (Suc i) (js_add st l) b1) =
            Inl (TypeError_element (Suc i + k') len)"
      using Cons.prems Suc by (intro Cons.IH) auto
    then show ?thesis unfolding b1 using Suc by simp
  qed
qed



lemma buildExtents_notArray:
  "extentsByStart s y = None \<Longrightarrow> \<not> isArray (populateExtents s y) \<Longrightarrow>
   buildExtents s y =
     (Inl (TypeError_notArray (typeof (populateExtents s y))), s\<lparr>genCalls := y # genCalls s\<rparr>)"
  by (cases "populateExtents s y") (simp_all add: buildExtents_def)

lemma buildExtents_array:
  "extentsByStart s y = None \<Longrightarrow> populateExtents s y = JArray vs \<Longrightarrow>
   buildExtents s y =
     (case mapExtents y (length vs) vs 0 (Num 0) (extentsByName s) of
        (Inl e, b) \<Rightarrow> (Inl e, s\<lparr>genCalls := y # genCalls s, extentsByName := b\<rparr>)
      | (Inr rs, b) \<Rightarrow>
          (Inr (), s\<lparr>genCalls := y # genCalls s, extentsByName := b,
                     extentsByStart := (extentsByStart s)(y \<mapsto> rs)\<rparr>))"
  by (simp add: buildExtents_def Let_def split: prod.splits sum.splits)










text \<open>
  C4 (as the code has it). For a year that is not cached: when the generator's result is
  not an array, \<open>buildExtents\<close> throws the \<open>TypeError\<close> that reports its \<open>typeof\<close>; when
  it is an array in which the element at index \<open>i\<close> is not of type \<open>object\<close> and every
  earlier element is a non-null object, \<open>buildExtents\<close> throws the \<open>TypeError\<close> that names
  the index \<open>i\<close> and the length of the array.
\<close>

theorem buildExtents_validation:
  assumes "extentsByStart s y = None"
  shows "(\<not> isArray (populateExtents s y) \<longrightarrow>
            fst (buildExtents s y) = Inl (TypeError_notArray (typeof (populateExtents s y)))) \<and>
         (\<forall>vs i. populateExtents s y = JArray vs \<and> i < length vs \<and>
                 typeof (vs ! i) \<noteq> ''object'' \<and> (\<forall>j<i. isObject (vs ! j)) \<longrightarrow>
            fst (buildExtents s y) = Inl (TypeError_element i (length vs)))"
proof (intro conjI impI allI)
  assume "\<not> isArray (populateExtents s y)"
  then show "fst (buildExtents s y) = Inl (TypeError_notArray (typeof (populateExtents s y)))"
    by (simp add: buildExtents_notArray[OF assms])
next
  fix vs i
  assume a: "populateExtents s y = JArray vs \<and> i < length vs \<and>
             typeof (vs ! i) \<noteq> ''object'' \<and> (\<forall>j<i. isObject (vs ! j))"
  then have "fst (mapExtents y (length vs) vs 0 (Num 0) (extentsByName s)) =
             Inl (TypeError_element (0 + i) (length vs))"
    by (intro mapExtents_first_bad) auto
  moreover from a have vs: "populateExtents s y = JArray vs" by simp
  ultimately show "fst (buildExtents s y) = Inl (TypeError_element i (length vs))"
    by (cases "mapExtents y (length vs) vs 0 (Num 0) (extentsByName s)")
       (simp add: buildExtents_array[OF assms vs])
qed

theorem buildExtents_validation_witness:
  "fst (buildExtents (constructorFields faultyOptions faultyExtents 2022) 2019) =
     Inl (TypeError_notArray ''object'') \<and>
   fst (buildExtents (constructorFields faultyOptions faultyExtents 2022) 2020) =
     Inl (TypeError_element 1 2)"
proof -
  let ?s = "constructorFields faultyOptions faultyExtents 2022"
  have un: "\<And>y. extentsByStart ?s y = None" by (simp add: constructorFields_def)
  have g19: "populateExtents ?s 2019 = JObject (Some ''Qtr1'') (Some (Num 90))"
    by (simp add: constructorFields_def faultyExtents_def)
  have g20: "populateExtents ?s 2020 =
      JArray [JObject (Some ''Qtr1'') (Some (Num 90)), JNumber (Num 5)]"
    by (simp add: constructorFields_def faultyExtents_def)
  have a: "fst (buildExtents ?s 2019) = Inl (TypeError_notArray ''object'')"
    using buildExtents_validation[OF un, of 2019] by (simp add: g19)
  have "fst (buildExtents ?s 2020) =
      Inl (TypeError_element 1 (length [JObject (Some ''Qtr1'') (Some (Num 90)), JNumber (Num 5)]))"
    using buildExtents_validation[OF un, of 2020] g20
    by (elim conjE allE[of _ "[JObject (Some ''Qtr1'') (Some (Num 90)), JNumber (Num 5)]"]
             allE[of _ "1::nat"]) simp
  with a show ?thesis by simp
qed

text \<open>
  C4 as stated fails: an element \<open>{}\<close>, an object with neither \<open>name\<close> nor \<open>length\<close>,
  passes the only check \<open>buildExtents\<close> makes (\<open>typeof v !== "object"\<close>), and the year
  resolves without an error.
\<close>

theorem buildExtents_accepts_shapeless_object:
  "fst (buildExtents (constructorFields DefaultCalendarOptions shapelessExtents 2022) 2022) = Inr ()"
  by code_simp

section \<open>Invariants of the rollover loops\<close>











section \<open>The Calendar after an error\<close>









section \<open>Calls of the generator\<close>











section \<open>Termination of setCurrentDay\<close>










section \<open>Runs of the code on concrete calendars\<close>

text \<open>
  C1. The Gregorian calendar is constructed in 2023, a year of 365 days, on day 0.
  \<open>setCurrentDay(365)\<close> returns normally, having rolled into 2024 and subtracted the 366
  days of 2024 instead of the 365 days of 2023: it leaves \<open>currentDay = -1\<close>, outside
  \<open>[0, totalDays)\<close>.
\<close>

theorem setCurrentDay_forward_leaves_negative_day:
  "(case Calendar_new (Some gregorian2023) of
      Some (Inr s) \<Rightarrow>
        map_option (\<lambda>(r, s'). (position s, r, position s'))
          (setCurrentDay s (JNumber (Num 365)))
    | _ \<Rightarrow> None) =
   Some ((2023, Num 0, Num 365), Inr (), (2024, Num (- 1), Num 366))"
  by code_simp

text \<open>
  C2. From the same calendar (2023, day 0), \<open>adjustDay(400)\<close> reaches day 34 of 2024
  and \<open>adjustDay(-400)\<close> then ends on day 364 of 2022, not on day 0 of 2023.
\<close>

theorem adjustDay_round_trip_lost:
  "(case Calendar_new (Some gregorian2023) of
      Some (Inr s0) \<Rightarrow>
        (case adjustDay s0 (Num 400) of
           Some (Inr u, s1) \<Rightarrow>
             map_option (\<lambda>(r, s2). (position s0, position s1, r, position s2))
               (adjustDay s1 (Num (- 400)))
         | _ \<Rightarrow> None)
    | _ \<Rightarrow> None) =
   Some ((2023, Num 0, Num 365), (2024, Num 34, Num 366), Inr (), (2022, Num 364, Num 365))"
  by code_simp

text \<open>
  C8. The default options carry \<open>startYear = 0\<close>; the constructor's
  \<open>props?.startYear || 2022\<close> takes 0 for a missing value, so the Calendar starts in
  2022, before and after the first \<open>setCurrentDay\<close>.
\<close>

theorem constructor_startYear_zero:
  "opt_startYear DefaultCalendarOptions = Some 0 \<and>
   startYear (constructorFields DefaultCalendarOptions defaultPopulateExtents 0) = 2022 \<and>
   map_option (map_sum id startYear) (Calendar_new None) = Some (Inr 2022)"
  by code_simp

section \<open>Properties of bsearch\<close>

text \<open>
  C5. In the ascending array 10, 20, ..., 100 the absent 45 belongs at index 4 (between
  40 and 50); \<open>bsearch\<close> returns \<open>-3\<close>, the negation of the last midpoint it probed.
\<close>

theorem bsearch_absent_returns_last_midpoint:
  "bsearch [10, 20, 30, 40, 50, 60, 70, 80, 90, 100 :: int] 45 None None = Inr (- 3) \<and>
   sorted (take 4 [10, 20, 30, 40, 50, 60, 70, 80, 90, 100 :: int] @ [45] @
           drop 4 [10, 20, 30, 40, 50, 60, 70, 80, 90, 100])"
  by code_simp

end
